theory Spec2Isabelle
  imports Main
begin

section \<open>The QtWebEngine view and page adapters of qutebrowser\<close>

text \<open>
  A shallow embedding of \<^verbatim>\<open>qutebrowser/browser/webengine/webview.py\<close>: the class
  \<^verbatim>\<open>WebEngineView\<close> with its method \<^verbatim>\<open>createWindow\<close>, and the class
  \<^verbatim>\<open>WebEnginePage\<close> with the callbacks it overrides.

  The methods are callbacks: what they do is mostly to call a collaborator (the logger,
  the tabbed browser, the shared policy module, the engine's own base class). Every such
  call is written into a list of events that the method returns next to its result, in
  the order of the calls, so that "the method never asks the policy module" is a
  statement about that list. What a collaborator answers is not decided by this file of
  the program; the answers are the fields of an environment record.
\<close>

subsection \<open>Values of the engine and of the application\<close>

text \<open>
  PyQt5 hands the C++ enumerations over as subclasses of \<^verbatim>\<open>int\<close>; a value without a
  name can be constructed and passed. The members below have the values of the Qt headers.
\<close>

type_synonym WebWindowType = int

definition WebBrowserWindow :: WebWindowType where "WebBrowserWindow = 0"
definition WebBrowserTab :: WebWindowType where "WebBrowserTab = 1"
definition WebDialog :: WebWindowType where "WebDialog = 2"
definition WebBrowserBackgroundTab :: WebWindowType where "WebBrowserBackgroundTab = 3"

type_synonym JavaScriptConsoleMessageLevel = int

definition InfoMessageLevel :: JavaScriptConsoleMessageLevel where "InfoMessageLevel = 0"
definition WarningMessageLevel :: JavaScriptConsoleMessageLevel where "WarningMessageLevel = 1"
definition ErrorMessageLevel :: JavaScriptConsoleMessageLevel where "ErrorMessageLevel = 2"

type_synonym NavigationType = int

definition NavigationTypeLinkClicked :: NavigationType where "NavigationTypeLinkClicked = 0"

text \<open>\<^verbatim>\<open>usertypes.ClickTarget\<close>, a Python enumeration.\<close>

datatype ClickTarget = normal | tab | tab_bg | window | hover

text \<open>A \<^verbatim>\<open>QUrl\<close> is kept as the text it was made from; the engine's methods on it
  (\<^verbatim>\<open>isValid\<close>, \<^verbatim>\<open>toDisplayString\<close>, \<^verbatim>\<open>matches\<close>) are answers of the environment.\<close>

datatype QUrl = QUrl string

datatype FormattingOption = RemoveScheme

text \<open>The engine's certificate error, as far as \<^verbatim>\<open>CertificateErrorWrapper\<close> reads it:
  \<^verbatim>\<open>url()\<close>, \<^verbatim>\<open>errorDescription()\<close> (the wrapper's \<^verbatim>\<open>__str__\<close>) and
  \<^verbatim>\<open>isOverridable()\<close> (the wrapper's \<^verbatim>\<open>is_overridable\<close>).\<close>

record QWebEngineCertificateError =
  error_url :: QUrl
  errorDescription :: string
  isOverridable :: bool

text \<open>\<^verbatim>\<open>TabData\<close>: the page only calls \<^verbatim>\<open>combined_target()\<close> on it.\<close>

record TabData =
  combined_target :: ClickTarget

text \<open>A view object of the engine is known by its identity.\<close>

type_synonym widget = nat

datatype signal = loadStarted | certificate_error | link_clicked | shutting_down

datatype logger =
  log_webview_debug | log_webview_warning | log_webview_error
  | log_js_info | log_js_warning | log_js_error

datatype error = ValueError string | KeyError int

text \<open>\<^verbatim>\<open>shared.CallSuper\<close>, the exception by which the policy module defers to the engine.\<close>

datatype CallSuper = CallSuper

datatype event =
    Log logger string
  | Emit signal "QUrl list"
  | Call_tabopen nat bool
  | Call_ignore_certificate_errors QUrl "QWebEngineCertificateError list" "signal list"
  | Call_javascript_confirm QUrl string "signal list"
  | Call_javascript_alert QUrl string "signal list"
  | Call_super_javaScriptConfirm QUrl string
  | Call_super_javaScriptAlert QUrl string
  | Call_setHtml string

subsection \<open>The collaborators\<close>

record env =
  version_check :: "string \<Rightarrow> bool"
  environ :: "string \<rightharpoonup> string"
  has_WebBrowserBackgroundTab :: bool
  qenum_key :: "string \<Rightarrow> int \<Rightarrow> string"
  tabopen :: "nat \<Rightarrow> bool \<Rightarrow> widget option"
  isValid :: "QUrl \<Rightarrow> bool"
  toDisplayString :: "QUrl \<Rightarrow> string"
  url_str :: "QUrl \<Rightarrow> string"
  matches :: "QUrl \<Rightarrow> QUrl \<Rightarrow> FormattingOption \<Rightarrow> bool"
  jinja_render :: "string \<Rightarrow> (string \<times> string) list \<Rightarrow> string"
  ignore_certificate_errors ::
    "QUrl \<Rightarrow> QWebEngineCertificateError list \<Rightarrow> signal list \<Rightarrow> bool"
  javascript_confirm :: "QUrl \<Rightarrow> string \<Rightarrow> signal list \<Rightarrow> CallSuper + bool"
  javascript_alert :: "QUrl \<Rightarrow> string \<Rightarrow> signal list \<Rightarrow> CallSuper + unit"
  super_javaScriptConfirm :: "QUrl \<Rightarrow> string \<Rightarrow> bool"
  config_get :: "string \<Rightarrow> string \<Rightarrow> string"

text \<open>
  \<^item> \<open>version_check\<close> is \<^verbatim>\<open>qtutils.version_check\<close>, \<open>environ\<close> is \<^verbatim>\<open>os.environ\<close>;
  \<^item> \<open>has_WebBrowserBackgroundTab\<close> is
    \<^verbatim>\<open>hasattr(QWebEnginePage, 'WebBrowserBackgroundTab')\<close> (the member is new in Qt 5.7);
  \<^item> \<open>qenum_key c v\<close> is \<^verbatim>\<open>debug.qenum_key(QWebEnginePage, v)\<close> for a value \<open>v\<close> of the
    enumeration class named \<open>c\<close>: the name of the value;
  \<^item> \<open>tabopen w b\<close> is \<^verbatim>\<open>tabopen(background=b)._widget\<close> on the tabbed browser that
    \<^verbatim>\<open>objreg\<close> has for the window \<open>w\<close>;
  \<^item> \<open>url_str\<close> is Python's \<^verbatim>\<open>str\<close> on a \<^verbatim>\<open>QUrl\<close>;
  \<^item> \<open>ignore_certificate_errors\<close>, \<open>javascript_confirm\<close> and \<open>javascript_alert\<close> are
    the functions of the module \<^verbatim>\<open>shared\<close>; the last two may raise \<^verbatim>\<open>CallSuper\<close>;
  \<^item> \<open>super_javaScriptConfirm\<close> is the engine's own \<^verbatim>\<open>javaScriptConfirm\<close>;
  \<^item> \<open>config_get\<close> is \<^verbatim>\<open>config.get\<close>.
\<close>

subsection \<open>The two classes\<close>

text \<open>
  \<open>is_shutting_down\<close> is the attribute \<^verbatim>\<open>_is_shutting_down\<close>. \<open>requestedUrl\<close> and
  \<open>html\<close> are state of the base class \<^verbatim>\<open>QWebEnginePage\<close>: what \<^verbatim>\<open>requestedUrl()\<close>
  returns, and the content last given to \<^verbatim>\<open>setHtml\<close> (none when the content is
  whatever the engine loaded).
\<close>

record WebEnginePage =
  tabdata :: TabData
  is_shutting_down :: bool
  requestedUrl :: QUrl
  html :: "string option"

record WebEngineView =
  win_id :: nat
  page :: WebEnginePage

text \<open>Python's \<^verbatim>\<open>str\<close> on the values that the log messages format.\<close>

definition str_bool :: "bool \<Rightarrow> string" where
  "str_bool b = (if b then ''True'' else ''False'')"

fun str_ClickTarget :: "ClickTarget \<Rightarrow> string" where
  "str_ClickTarget normal = ''ClickTarget.normal''"
| "str_ClickTarget tab = ''ClickTarget.tab''"
| "str_ClickTarget tab_bg = ''ClickTarget.tab_bg''"
| "str_ClickTarget window = ''ClickTarget.window''"
| "str_ClickTarget hover = ''ClickTarget.hover''"

subsection \<open>\<^verbatim>\<open>WebEnginePage\<close>\<close>

text \<open>\<^verbatim>\<open>__init__\<close>: the engine's state of a fresh page is given by the caller.\<close>

definition WebEnginePage_init :: "TabData \<Rightarrow> QUrl \<Rightarrow> WebEnginePage" where
  "WebEnginePage_init td requested =
     \<lparr>tabdata = td, is_shutting_down = False, requestedUrl = requested, html = None\<rparr>"

definition WebEnginePage_shutdown :: "WebEnginePage \<Rightarrow> WebEnginePage \<times> event list" where
  "WebEnginePage_shutdown self =
     (self\<lparr>is_shutting_down := True\<rparr>, [Emit shutting_down []])"

subsection \<open>\<^verbatim>\<open>WebEngineView\<close>\<close>

definition WebEngineView_init :: "TabData \<Rightarrow> nat \<Rightarrow> QUrl \<Rightarrow> WebEngineView" where
  "WebEngineView_init td w requested =
     \<lparr>win_id = w, page = WebEnginePage_init td requested\<rparr>"

definition WebEngineView_shutdown :: "WebEngineView \<Rightarrow> WebEngineView \<times> event list" where
  "WebEngineView_shutdown self =
     (case WebEnginePage_shutdown (page self) of (p, evs) \<Rightarrow> (self\<lparr>page := p\<rparr>, evs))"

text \<open>
  The value of \<^verbatim>\<open>qtbug_54419_fixed\<close> as the \<^verbatim>\<open>if not\<close> reads it. The expression is a
  chain of \<^verbatim>\<open>or\<close> whose last operand is the string \<^verbatim>\<open>os.environ.get(name, '')\<close>; a string
  is true when it is not empty.
\<close>

definition environ_get :: "env \<Rightarrow> string \<Rightarrow> string \<Rightarrow> string" where
  "environ_get e name dflt = (case environ e name of None \<Rightarrow> dflt | Some v \<Rightarrow> v)"

definition qtbug_54419_fixed :: "env \<Rightarrow> bool" where
  "qtbug_54419_fixed e \<longleftrightarrow>
     (version_check e ''5.6.2'' \<and> \<not> version_check e ''5.7.0'')
     \<or> version_check e ''5.7.1''
     \<or> environ_get e ''QUTE_QTBUG54419_PATCHED'' [] \<noteq> []"

text \<open>
  \<^verbatim>\<open>createWindow\<close> returns a view object or \<^verbatim>\<open>None\<close>, or raises. The chain of
  \<^verbatim>\<open>if\<close>/\<^verbatim>\<open>elif\<close> only decides \<^verbatim>\<open>background\<close> (or raises); the call of \<^verbatim>\<open>tabopen\<close>
  comes after the chain, for every branch that did not raise.
\<close>

definition createWindow ::
  "env \<Rightarrow> WebEngineView \<Rightarrow> WebWindowType \<Rightarrow> (error + widget option) \<times> event list" where
  "createWindow e self wintype =
     (let debug_type = qenum_key e ''WebWindowType'' wintype;
          evs0 = [Log log_webview_debug (''createWindow with type '' @ debug_type)]
      in if \<not> qtbug_54419_fixed e then
           (Inr None,
            evs0 @ [Log log_webview_debug ''Ignoring createWindow because of QTBUG-54419''])
         else
           case (if wintype \<in> set [WebBrowserWindow, WebDialog] then
                   (Inr False,
                    [Log log_webview_warning
                       (debug_type @ '' requested, but we don'' @ [CHR 0x27]
                          @ ''t support that!'')])
                 else if wintype = WebBrowserTab then (Inr False, [])
                 else if has_WebBrowserBackgroundTab e \<and> wintype = WebBrowserBackgroundTab
                   then (Inr True, [])
                 else (Inl (ValueError (''Invalid wintype '' @ debug_type)), []))
           of (Inl exc, evs1) \<Rightarrow> (Inl exc, evs0 @ evs1)
            | (Inr background, evs1) \<Rightarrow>
                (Inr (tabopen e (win_id self) background),
                 evs0 @ evs1 @ [Call_tabopen (win_id self) background]))"

subsection \<open>The callbacks of \<^verbatim>\<open>WebEnginePage\<close>\<close>

definition certificateError ::
  "env \<Rightarrow> WebEnginePage \<Rightarrow> QWebEngineCertificateError \<Rightarrow> bool \<times> WebEnginePage \<times> event list"
  where
  "certificateError e self err =
     (let url = error_url err;
          evs0 = [Emit certificate_error [],
                  Log log_webview_debug (''Certificate error: '' @ errorDescription err)];
          url_string = toDisplayString e url;
          error_page = jinja_render e ''error.html''
            [(''title'', ''Error loading page: '' @ url_string), (''url'', url_string),
             (''error'', errorDescription err), (''icon'', [])];
          (ignore, evs1) =
            (if isOverridable err then
               (ignore_certificate_errors e url [err] [loadStarted, shutting_down],
                [Call_ignore_certificate_errors url [err] [loadStarted, shutting_down]])
             else
               (False,
                [Log log_webview_error
                   (''Non-overridable certificate error: '' @ errorDescription err)]));
          evs2 = [Log log_webview_debug
                    (''ignore '' @ str_bool ignore @ '', URL '' @ url_str e url
                       @ '', requested '' @ url_str e (requestedUrl self))]
      in if \<not> ignore \<and> matches e url (requestedUrl self) RemoveScheme then
           (ignore, self\<lparr>html := Some error_page\<rparr>,
            evs0 @ evs1 @ evs2 @ [Call_setHtml error_page])
         else (ignore, self, evs0 @ evs1 @ evs2))"

text \<open>The page that \<^verbatim>\<open>certificateError\<close> renders, by name: its local
  \<^verbatim>\<open>error_page\<close>.\<close>

definition certificate_error_page :: "env \<Rightarrow> QWebEngineCertificateError \<Rightarrow> string" where
  "certificate_error_page e err =
     jinja_render e ''error.html''
       [(''title'', ''Error loading page: '' @ toDisplayString e (error_url err)),
        (''url'', toDisplayString e (error_url err)),
        (''error'', errorDescription err), (''icon'', [])]"

definition javaScriptConfirm ::
  "env \<Rightarrow> WebEnginePage \<Rightarrow> QUrl \<Rightarrow> string \<Rightarrow> bool \<times> WebEnginePage \<times> event list" where
  "javaScriptConfirm e self url js_msg =
     (if is_shutting_down self then (False, self, [])
      else
        case javascript_confirm e url js_msg [loadStarted, shutting_down] of
          Inr answer \<Rightarrow>
            (answer, self, [Call_javascript_confirm url js_msg [loadStarted, shutting_down]])
        | Inl CallSuper \<Rightarrow>
            (super_javaScriptConfirm e url js_msg, self,
             [Call_javascript_confirm url js_msg [loadStarted, shutting_down],
              Call_super_javaScriptConfirm url js_msg]))"

definition javaScriptAlert ::
  "env \<Rightarrow> WebEnginePage \<Rightarrow> QUrl \<Rightarrow> string \<Rightarrow> unit \<times> WebEnginePage \<times> event list" where
  "javaScriptAlert e self url js_msg =
     (if is_shutting_down self then ((), self, [])
      else
        case javascript_alert e url js_msg [loadStarted, shutting_down] of
          Inr _ \<Rightarrow>
            ((), self, [Call_javascript_alert url js_msg [loadStarted, shutting_down]])
        | Inl CallSuper \<Rightarrow>
            ((), self,
             [Call_javascript_alert url js_msg [loadStarted, shutting_down],
              Call_super_javaScriptAlert url js_msg]))"

text \<open>Python's \<^verbatim>\<open>str\<close> on an integer, for the line number of a console message.\<close>

fun str_nat :: "nat \<Rightarrow> string" where
  "str_nat n =
     (if n < 10 then [char_of (48 + n)]
      else str_nat (n div 10) @ [char_of (48 + n mod 10)])"

declare str_nat.simps [simp del]

definition str_int :: "int \<Rightarrow> string" where
  "str_int i = (if i < 0 then CHR ''-'' # str_nat (nat (- i)) else str_nat (nat i))"

text \<open>The dictionary \<^verbatim>\<open>level_to_logger\<close>; \<^verbatim>\<open>level_to_logger[level]\<close> raises
  \<^verbatim>\<open>KeyError\<close> for a key that is not in it.\<close>

definition level_to_logger :: "JavaScriptConsoleMessageLevel \<rightharpoonup> logger" where
  "level_to_logger =
     [InfoMessageLevel \<mapsto> log_js_info,
      WarningMessageLevel \<mapsto> log_js_warning,
      ErrorMessageLevel \<mapsto> log_js_error]"

definition javaScriptConsoleMessage ::
  "env \<Rightarrow> WebEnginePage \<Rightarrow> JavaScriptConsoleMessageLevel \<Rightarrow> string \<Rightarrow> int \<Rightarrow> string
     \<Rightarrow> (error + unit) \<times> WebEnginePage \<times> event list" where
  "javaScriptConsoleMessage e self level msg line source =
     (let setting = config_get e ''general'' ''log-javascript-console''
      in if setting = ''none'' then (Inr (), self, [])
         else
           let logstring = ''['' @ source @ '':'' @ str_int line @ ''] '' @ msg
           in case level_to_logger level of
                None \<Rightarrow> (Inl (KeyError level), self, [])
              | Some logger \<Rightarrow> (Inr (), self, [Log logger logstring]))"

definition acceptNavigationRequest ::
  "env \<Rightarrow> WebEnginePage \<Rightarrow> QUrl \<Rightarrow> NavigationType \<Rightarrow> bool \<Rightarrow> bool \<times> WebEnginePage \<times> event list"
  where
  "acceptNavigationRequest e self url typ is_main_frame =
     (let target = combined_target (tabdata self);
          evs0 = [Log log_webview_debug
                    (''navigation request: url '' @ toDisplayString e url
                       @ '', type '' @ qenum_key e ''NavigationType'' typ
                       @ '', target '' @ str_ClickTarget target
                       @ '', is_main_frame '' @ str_bool is_main_frame)]
      in if typ \<noteq> NavigationTypeLinkClicked then (True, self, evs0)
         else (isValid e url \<and> target = normal, self, evs0 @ [Emit link_clicked [url]]))"

subsection \<open>Histories of calls\<close>

text \<open>
  The application and the engine call the methods one after the other, on the same view
  and its page. A raised exception ends the call; the objects stay as the call left them.
\<close>

datatype call =
    View_shutdown
  | View_createWindow WebWindowType
  | Page_shutdown
  | Page_certificateError QWebEngineCertificateError
  | Page_javaScriptConfirm QUrl string
  | Page_javaScriptAlert QUrl string
  | Page_javaScriptConsoleMessage JavaScriptConsoleMessageLevel string int string
  | Page_acceptNavigationRequest QUrl NavigationType bool

fun invoke :: "env \<Rightarrow> WebEngineView \<Rightarrow> call \<Rightarrow> WebEngineView \<times> event list" where
  "invoke e v View_shutdown = WebEngineView_shutdown v"
| "invoke e v (View_createWindow wintype) = (v, snd (createWindow e v wintype))"
| "invoke e v Page_shutdown =
     (case WebEnginePage_shutdown (page v) of (p, evs) \<Rightarrow> (v\<lparr>page := p\<rparr>, evs))"
| "invoke e v (Page_certificateError err) =
     (case certificateError e (page v) err of (_, p, evs) \<Rightarrow> (v\<lparr>page := p\<rparr>, evs))"
| "invoke e v (Page_javaScriptConfirm url js_msg) =
     (case javaScriptConfirm e (page v) url js_msg of (_, p, evs) \<Rightarrow> (v\<lparr>page := p\<rparr>, evs))"
| "invoke e v (Page_javaScriptAlert url js_msg) =
     (case javaScriptAlert e (page v) url js_msg of (_, p, evs) \<Rightarrow> (v\<lparr>page := p\<rparr>, evs))"
| "invoke e v (Page_javaScriptConsoleMessage level msg line source) =
     (case javaScriptConsoleMessage e (page v) level msg line source of
        (_, p, evs) \<Rightarrow> (v\<lparr>page := p\<rparr>, evs))"
| "invoke e v (Page_acceptNavigationRequest url typ is_main_frame) =
     (case acceptNavigationRequest e (page v) url typ is_main_frame of
        (_, p, evs) \<Rightarrow> (v\<lparr>page := p\<rparr>, evs))"

fun invoke_all :: "env \<Rightarrow> WebEngineView \<Rightarrow> call list \<Rightarrow> WebEngineView \<times> event list" where
  "invoke_all e v [] = (v, [])"
| "invoke_all e v (c # cs) =
     (case invoke e v c of (v', evs) \<Rightarrow>
        (case invoke_all e v' cs of (v'', evs') \<Rightarrow> (v'', evs @ evs')))"

subsection \<open>Reading a list of events\<close>

fun is_tabopen :: "event \<Rightarrow> bool" where
  "is_tabopen (Call_tabopen _ _) = True"
| "is_tabopen _ = False"

fun is_policy_call :: "event \<Rightarrow> bool" where
  "is_policy_call (Call_ignore_certificate_errors _ _ _) = True"
| "is_policy_call (Call_javascript_confirm _ _ _) = True"
| "is_policy_call (Call_javascript_alert _ _ _) = True"
| "is_policy_call _ = False"

fun is_setHtml :: "event \<Rightarrow> bool" where
  "is_setHtml (Call_setHtml _) = True"
| "is_setHtml _ = False"

subsection \<open>Two environments and a view, for concrete runs\<close>

text \<open>
  \<open>env_qt571\<close> answers as an installation on Qt 5.7.1 without the environment variable:
  every version check of \<^verbatim>\<open>createWindow\<close> holds. \<open>env_qt560\<close> answers as Qt 5.6.0:
  no version check holds, and the variable is not set either. The policy module lets the
  user decide; here the user says yes to everything.
\<close>

definition env_qt571 :: env where
  "env_qt571 =
     \<lparr>version_check = (\<lambda>v. v \<in> set [''5.6.2'', ''5.7.0'', ''5.7.1'']),
      environ = Map.empty,
      has_WebBrowserBackgroundTab = True,
      qenum_key = (\<lambda>c v. c @ ''.'' @ str_int v),
      tabopen = (\<lambda>w background. Some (Suc w)),
      isValid = (\<lambda>u. u \<noteq> QUrl []),
      toDisplayString = (\<lambda>u. case u of QUrl s \<Rightarrow> s),
      url_str = (\<lambda>u. case u of QUrl s \<Rightarrow> s),
      matches = (\<lambda>u u' opt. case (u, u') of (QUrl s, QUrl s') \<Rightarrow>
                   dropWhile (\<lambda>c. c \<noteq> CHR '':'') s = dropWhile (\<lambda>c. c \<noteq> CHR '':'') s'),
      jinja_render = (\<lambda>template args. template @ concat (map snd args)),
      ignore_certificate_errors = (\<lambda>u errs abort_on. True),
      javascript_confirm = (\<lambda>u js_msg abort_on. Inr True),
      javascript_alert = (\<lambda>u js_msg abort_on. Inr ()),
      super_javaScriptConfirm = (\<lambda>u js_msg. False),
      config_get = (\<lambda>section option. ''debug'')\<rparr>"

definition env_qt560 :: env where
  "env_qt560 = env_qt571\<lparr>version_check := (\<lambda>v. False), has_WebBrowserBackgroundTab := False\<rparr>"

definition example_view :: WebEngineView where
  "example_view =
     WebEngineView_init \<lparr>combined_target = normal\<rparr> 0 (QUrl ''https://example.org/'')"

section \<open>Properties\<close>

lemmas WebWindowType_defs =
  WebBrowserWindow_def WebBrowserTab_def WebDialog_def WebBrowserBackgroundTab_def

lemmas MessageLevel_defs = InfoMessageLevel_def WarningMessageLevel_def ErrorMessageLevel_def

subsection \<open>The workaround gate\<close>

lemma qtbug_54419_fixed_env_qt571: "qtbug_54419_fixed env_qt571"
  by (simp add: qtbug_54419_fixed_def env_qt571_def)

lemma qtbug_54419_fixed_env_qt560: "\<not> qtbug_54419_fixed env_qt560"
  by (simp add: qtbug_54419_fixed_def env_qt560_def env_qt571_def environ_get_def)

lemma createWindow_not_fixed:
  "\<not> qtbug_54419_fixed e \<Longrightarrow>
   createWindow e self wintype =
     (Inr None,
      [Log log_webview_debug (''createWindow with type '' @ qenum_key e ''WebWindowType'' wintype),
       Log log_webview_debug ''Ignoring createWindow because of QTBUG-54419''])"
  by (simp add: createWindow_def)

lemma example_view_simps:
  "win_id example_view = 0"
  "is_shutting_down (page example_view) = False"
  "requestedUrl (page example_view) = QUrl ''https://example.org/''"
  "combined_target (tabdata (page example_view)) = normal"
  "html (page example_view) = None"
  by (simp_all add: example_view_def WebEngineView_init_def WebEnginePage_init_def)

text \<open>
  Claim C1 says that a request for a complete browser window or for a web dialog, on an
  installation where the workaround gate passes, is rejected: no tab is opened and no view
  is returned. The code does not do that. The branch for these two kinds writes a warning
  and has no \<^verbatim>\<open>return\<close>; \<^verbatim>\<open>background\<close> keeps the value \<^verbatim>\<open>False\<close> it was given before
  the chain, and the call of \<^verbatim>\<open>tabopen\<close> after the chain runs. On Qt 5.7.1, a request for a
  browser window opens a foreground tab in window 0 and returns its view.
\<close>

theorem createWindow_unsupported_kind_counterexample:
  "qtbug_54419_fixed env_qt571
   \<and> fst (createWindow env_qt571 example_view WebBrowserWindow) = Inr (Some 1)
   \<and> list_ex is_tabopen (snd (createWindow env_qt571 example_view WebBrowserWindow))"
  by (simp add: qtbug_54419_fixed_env_qt571 createWindow_def example_view_simps)
     (simp add: env_qt571_def)

text \<open>
  Claim C1, as the code has it: when the gate passes, a request for a browser window or a
  web dialog is logged as a warning and then served like a request for a foreground tab.
  The calls are, in this order, the debug message, the warning, and \<^verbatim>\<open>tabopen\<close> with
  \<^verbatim>\<open>background=False\<close> on the tabbed browser of the view's window; the result is the view
  of that tab, and nothing is raised.
\<close>

theorem createWindow_unsupported_kind:
  assumes "qtbug_54419_fixed e"
    and "wintype = WebBrowserWindow \<or> wintype = WebDialog"
  shows "createWindow e self wintype =
     (Inr (tabopen e (win_id self) False),
      [Log log_webview_debug (''createWindow with type '' @ qenum_key e ''WebWindowType'' wintype),
       Log log_webview_warning
         (qenum_key e ''WebWindowType'' wintype @ '' requested, but we don'' @ [CHR 0x27]
            @ ''t support that!''),
       Call_tabopen (win_id self) False])"
  using assms by (auto simp add: createWindow_def Let_def)

text \<open>
  The same on Qt 5.7.1 for a web dialog.
\<close>

theorem createWindow_unsupported_kind_witness:
  "qtbug_54419_fixed env_qt571 \<and> (WebDialog = WebBrowserWindow \<or> WebDialog = WebDialog)
   \<and> fst (createWindow env_qt571 example_view WebDialog) = Inr (Some 1)
   \<and> last (snd (createWindow env_qt571 example_view WebDialog)) = Call_tabopen 0 False"
proof -
  have gate: "qtbug_54419_fixed env_qt571"
    by (rule qtbug_54419_fixed_env_qt571)
  have kind: "WebDialog = WebBrowserWindow \<or> WebDialog = WebDialog"
    by simp
  have "tabopen env_qt571 0 False = Some 1"
    by (simp add: env_qt571_def)
  with createWindow_unsupported_kind [OF gate kind, of example_view] gate show ?thesis
    by (simp add: example_view_simps)
qed


text \<open>
  Claim C7 says that a request whose kind is none of the four named ones makes
  \<^verbatim>\<open>createWindow\<close> raise. The gate comes first in the code: on Qt 5.6.0, without the
  environment variable, a request of kind 99 returns \<^verbatim>\<open>None\<close> like every other request.
\<close>

theorem createWindow_invalid_kind_counterexample:
  "\<not> qtbug_54419_fixed env_qt560
   \<and> (99::int) \<noteq> WebBrowserWindow \<and> (99::int) \<noteq> WebDialog
   \<and> (99::int) \<noteq> WebBrowserTab \<and> (99::int) \<noteq> WebBrowserBackgroundTab
   \<and> fst (createWindow env_qt560 example_view 99) = Inr None"
  by (simp add: createWindow_not_fixed [OF qtbug_54419_fixed_env_qt560]
      qtbug_54419_fixed_env_qt560 WebWindowType_defs)

text \<open>
  Claim C7, as the code has it: when the gate passes, a request whose kind is none of the
  four named ones raises \<^verbatim>\<open>ValueError\<close> with the message \<^verbatim>\<open>Invalid wintype\<close> and the
  name of the kind. Only the debug message was written before; the tabbed browser is not
  asked.
\<close>

theorem createWindow_invalid_kind:
  assumes "qtbug_54419_fixed e"
    and "wintype \<notin> {WebBrowserWindow, WebDialog, WebBrowserTab, WebBrowserBackgroundTab}"
  shows "createWindow e self wintype =
     (Inl (ValueError (''Invalid wintype '' @ qenum_key e ''WebWindowType'' wintype)),
      [Log log_webview_debug (''createWindow with type '' @ qenum_key e ''WebWindowType'' wintype)])"
  using assms by (simp add: createWindow_def Let_def)

text \<open>
  The same on Qt 5.7.1 for the kind 99.
\<close>

theorem createWindow_invalid_kind_witness:
  "qtbug_54419_fixed env_qt571
   \<and> (99::int) \<notin> {WebBrowserWindow, WebDialog, WebBrowserTab, WebBrowserBackgroundTab}
   \<and> fst (createWindow env_qt571 example_view 99)
       = Inl (ValueError (''Invalid wintype '' @ qenum_key env_qt571 ''WebWindowType'' 99))
   \<and> \<not> list_ex is_tabopen (snd (createWindow env_qt571 example_view 99))"
proof -
  have gate: "qtbug_54419_fixed env_qt571"
    by (rule qtbug_54419_fixed_env_qt571)
  have kind: "(99::int) \<notin> {WebBrowserWindow, WebDialog, WebBrowserTab, WebBrowserBackgroundTab}"
    by (simp add: WebWindowType_defs)
  from createWindow_invalid_kind [OF gate kind, of example_view] gate kind show ?thesis
    by simp
qed

text \<open>
  Claim C9: when the Qt version is neither in the range from 5.6.2 up to 5.7.0 nor at
  least 5.7.1, and the environment variable \<^verbatim>\<open>QUTE_QTBUG54419_PATCHED\<close> is not set,
  \<^verbatim>\<open>createWindow\<close> returns \<^verbatim>\<open>None\<close> for every kind of window, and the tabbed browser
  is not asked.
\<close>

theorem createWindow_gate_inactive:
  assumes "\<not> (version_check e ''5.6.2'' \<and> \<not> version_check e ''5.7.0'')"
    and "\<not> version_check e ''5.7.1''"
    and "environ e ''QUTE_QTBUG54419_PATCHED'' = None"
  shows "fst (createWindow e self wintype) = Inr None
    \<and> \<not> list_ex is_tabopen (snd (createWindow e self wintype))"
proof -
  from assms have "\<not> qtbug_54419_fixed e"
    by (simp add: qtbug_54419_fixed_def environ_get_def)
  then show ?thesis
    by (simp add: createWindow_not_fixed)
qed

text \<open>
  The same on Qt 5.6.0 for a foreground tab.
\<close>

theorem createWindow_gate_inactive_witness:
  "\<not> (version_check env_qt560 ''5.6.2'' \<and> \<not> version_check env_qt560 ''5.7.0'')
   \<and> \<not> version_check env_qt560 ''5.7.1''
   \<and> environ env_qt560 ''QUTE_QTBUG54419_PATCHED'' = None
   \<and> fst (createWindow env_qt560 example_view WebBrowserTab) = Inr None
   \<and> \<not> list_ex is_tabopen (snd (createWindow env_qt560 example_view WebBrowserTab))"
proof -
  have a: "\<not> (version_check env_qt560 ''5.6.2'' \<and> \<not> version_check env_qt560 ''5.7.0'')"
    and b: "\<not> version_check env_qt560 ''5.7.1''"
    and c: "environ env_qt560 ''QUTE_QTBUG54419_PATCHED'' = None"
    by (simp_all add: env_qt560_def env_qt571_def)
  from createWindow_gate_inactive [OF a b c, of example_view WebBrowserTab] a b c
  show ?thesis by simp
qed


subsection \<open>Certificate errors\<close>

lemma certificateError_ignore:
  "fst (certificateError e self err) =
     (isOverridable err \<and> ignore_certificate_errors e (error_url err) [err] [loadStarted, shutting_down])"
  by (simp add: certificateError_def Let_def)

text \<open>
  Claim C2: for a certificate error that cannot be overridden, \<^verbatim>\<open>certificateError\<close>
  returns \<^verbatim>\<open>False\<close>, and no function of the policy module is among its calls.
\<close>

theorem certificateError_non_overridable:
  assumes "\<not> isOverridable err"
  shows "fst (certificateError e self err) = False
    \<and> \<not> list_ex is_policy_call (snd (snd (certificateError e self err)))"
  using assms by (simp add: certificateError_def Let_def)

text \<open>
  The same for an expired certificate that cannot be overridden.
\<close>

theorem certificateError_non_overridable_witness:
  "\<not> isOverridable \<lparr>error_url = QUrl ''http://example.org/'', errorDescription = ''expired'',
        isOverridable = False\<rparr>
   \<and> fst (certificateError env_qt571 (page example_view)
        \<lparr>error_url = QUrl ''http://example.org/'', errorDescription = ''expired'',
         isOverridable = False\<rparr>) = False
   \<and> \<not> list_ex is_policy_call (snd (snd (certificateError env_qt571 (page example_view)
        \<lparr>error_url = QUrl ''http://example.org/'', errorDescription = ''expired'',
         isOverridable = False\<rparr>)))"
proof -
  let ?err = "\<lparr>error_url = QUrl ''http://example.org/'', errorDescription = ''expired'',
    isOverridable = False\<rparr>"
  have h: "\<not> isOverridable ?err"
    by simp
  from certificateError_non_overridable [OF h, of env_qt571 "page example_view"] h
  show ?thesis by blast
qed

text \<open>
  Claim C6: \<^verbatim>\<open>certificateError\<close> calls \<^verbatim>\<open>setHtml\<close> exactly when the error was not ignored
  (the value it returns is \<^verbatim>\<open>False\<close>) and the URL of the error matches the requested URL
  under \<^verbatim>\<open>QUrl.RemoveScheme\<close>. Then the call is the last one, its argument is the rendered
  error page, and the page's content is that page. In every other case the page is as it
  was before.
\<close>

theorem certificateError_error_page:
  "(case certificateError e self err of
      (ignore, self', evs) \<Rightarrow>
        (list_ex is_setHtml evs
           \<longleftrightarrow> \<not> ignore \<and> matches e (error_url err) (requestedUrl self) RemoveScheme)
        \<and> (if \<not> ignore \<and> matches e (error_url err) (requestedUrl self) RemoveScheme
            then self' = self\<lparr>html := Some (certificate_error_page e err)\<rparr>
              \<and> last evs = Call_setHtml (certificate_error_page e err)
            else self' = self))"
  by (simp add: certificateError_def Let_def certificate_error_page_def)


text \<open>
  Both cases on the example page, which requested \<^verbatim>\<open>https://example.org/\<close>: an error of
  \<^verbatim>\<open>http://example.org/\<close> that cannot be overridden puts the error page in; the same error,
  overridable and ignored by the user, leaves the page alone.
\<close>

theorem certificateError_error_page_witness:
  "html (fst (snd (certificateError env_qt571 (page example_view)
      \<lparr>error_url = QUrl ''http://example.org/'', errorDescription = ''expired'',
       isOverridable = False\<rparr>)))
     = Some (certificate_error_page env_qt571
         \<lparr>error_url = QUrl ''http://example.org/'', errorDescription = ''expired'',
          isOverridable = False\<rparr>)
   \<and> fst (snd (certificateError env_qt571 (page example_view)
      \<lparr>error_url = QUrl ''http://example.org/'', errorDescription = ''expired'',
       isOverridable = True\<rparr>)) = page example_view"
proof -
  let ?err = "\<lparr>error_url = QUrl ''http://example.org/'', errorDescription = ''expired'',
    isOverridable = False\<rparr>"
  let ?err' = "\<lparr>error_url = QUrl ''http://example.org/'', errorDescription = ''expired'',
    isOverridable = True\<rparr>"
  have m: "matches env_qt571 (QUrl ''http://example.org/'') (requestedUrl (page example_view))
    RemoveScheme"
    by (simp add: example_view_simps env_qt571_def)
  have i: "\<not> fst (certificateError env_qt571 (page example_view) ?err)"
    by (simp add: certificateError_ignore)
  have i': "fst (certificateError env_qt571 (page example_view) ?err')"
    by (simp add: certificateError_ignore) (simp add: env_qt571_def)
  from certificateError_error_page [where e = env_qt571 and self = "page example_view" and err = ?err] m i
  have "html (fst (snd (certificateError env_qt571 (page example_view) ?err)))
      = Some (certificate_error_page env_qt571 ?err)"
    by (simp add: case_prod_beta)
  moreover
  from certificateError_error_page [where e = env_qt571 and self = "page example_view" and err = ?err'] i'
  have "fst (snd (certificateError env_qt571 (page example_view) ?err')) = page example_view"
    by (simp add: case_prod_beta)
  ultimately show ?thesis by blast
qed

subsection \<open>JavaScript dialogs\<close>

lemma invoke_keeps_shutting_down:
  "is_shutting_down (page v) \<Longrightarrow> is_shutting_down (page (fst (invoke e v c)))"
  by (cases c)
     (simp_all add: WebEngineView_shutdown_def WebEnginePage_shutdown_def certificateError_def
        javaScriptConfirm_def javaScriptAlert_def javaScriptConsoleMessage_def
        acceptNavigationRequest_def Let_def split: sum.splits CallSuper.splits option.splits)

lemma invoke_all_keeps_shutting_down:
  "is_shutting_down (page v) \<Longrightarrow> is_shutting_down (page (fst (invoke_all e v cs)))"
proof (induction cs arbitrary: v)
  case Nil
  then show ?case by simp
next
  case (Cons c cs)
  from Cons.prems have "is_shutting_down (page (fst (invoke e v c)))"
    by (rule invoke_keeps_shutting_down)
  then have "is_shutting_down (page (fst (invoke_all e (fst (invoke e v c)) cs)))"
    by (rule Cons.IH)
  then show ?case
    by (simp add: case_prod_beta)
qed

lemma invoke_shutdown_sets_flag:
  "c = View_shutdown \<or> c = Page_shutdown \<Longrightarrow> is_shutting_down (page (fst (invoke e v c)))"
  by (auto simp add: WebEngineView_shutdown_def WebEnginePage_shutdown_def)

lemma invoke_all_after_shutdown:
  "View_shutdown \<in> set cs \<or> Page_shutdown \<in> set cs \<Longrightarrow>
   is_shutting_down (page (fst (invoke_all e v cs)))"
proof (induction cs arbitrary: v)
  case Nil
  then show ?case by simp
next
  case (Cons c cs)
  show ?case
  proof (cases "c = View_shutdown \<or> c = Page_shutdown")
    case True
    then have "is_shutting_down (page (fst (invoke e v c)))"
      by (rule invoke_shutdown_sets_flag)
    then have "is_shutting_down (page (fst (invoke_all e (fst (invoke e v c)) cs)))"
      by (rule invoke_all_keeps_shutting_down)
    then show ?thesis
      by (simp add: case_prod_beta)
  next
    case False
    with Cons.prems have "View_shutdown \<in> set cs \<or> Page_shutdown \<in> set cs"
      by auto
    then have "is_shutting_down (page (fst (invoke_all e (fst (invoke e v c)) cs)))"
      by (rule Cons.IH)
    then show ?thesis
      by (simp add: case_prod_beta)
  qed
qed

text \<open>
  Claim C3: on a page whose shutting-down flag is set, \<^verbatim>\<open>javaScriptConfirm\<close> returns
  \<^verbatim>\<open>False\<close> and \<^verbatim>\<open>javaScriptAlert\<close> returns, both without a single call: the policy
  module is not asked, and neither is the engine. The flag is set after every history of
  calls in which the view or the page was shut down.
\<close>

theorem javaScript_dialogs_after_shutdown:
  "(is_shutting_down self \<longrightarrow>
      javaScriptConfirm e self url js_msg = (False, self, [])
      \<and> javaScriptAlert e self url js_msg = ((), self, []))
   \<and> (View_shutdown \<in> set cs \<or> Page_shutdown \<in> set cs \<longrightarrow>
      javaScriptConfirm e (page (fst (invoke_all e v cs))) url js_msg
        = (False, page (fst (invoke_all e v cs)), [])
      \<and> javaScriptAlert e (page (fst (invoke_all e v cs))) url js_msg
        = ((), page (fst (invoke_all e v cs)), []))"
proof (intro conjI impI)
  assume "View_shutdown \<in> set cs \<or> Page_shutdown \<in> set cs"
  then have flag: "is_shutting_down (page (fst (invoke_all e v cs)))"
    by (rule invoke_all_after_shutdown)
  from flag show "javaScriptConfirm e (page (fst (invoke_all e v cs))) url js_msg
      = (False, page (fst (invoke_all e v cs)), [])"
    by (simp add: javaScriptConfirm_def)
  from flag show "javaScriptAlert e (page (fst (invoke_all e v cs))) url js_msg
      = ((), page (fst (invoke_all e v cs)), [])"
    by (simp add: javaScriptAlert_def)
qed (simp_all add: javaScriptConfirm_def javaScriptAlert_def)

text \<open>
  The same on the example page after its shutdown. Before the shutdown, the policy module
  is asked, and its answer (here yes) is returned.
\<close>

theorem javaScript_dialogs_after_shutdown_witness:
  "is_shutting_down (fst (WebEnginePage_shutdown (page example_view)))
   \<and> (View_shutdown \<in> set [View_shutdown] \<or> Page_shutdown \<in> set [View_shutdown])
   \<and> fst (javaScriptConfirm env_qt571 (fst (WebEnginePage_shutdown (page example_view)))
        (QUrl ''https://example.org/'') ''sure?'') = False
   \<and> snd (snd (javaScriptConfirm env_qt571 (fst (WebEnginePage_shutdown (page example_view)))
        (QUrl ''https://example.org/'') ''sure?'')) = []
   \<and> snd (snd (javaScriptAlert env_qt571 (fst (WebEnginePage_shutdown (page example_view)))
        (QUrl ''https://example.org/'') ''hello'')) = []
   \<and> fst (javaScriptConfirm env_qt571 (page (fst (invoke_all env_qt571 example_view [View_shutdown])))
        (QUrl ''https://example.org/'') ''sure?'') = False
   \<and> fst (javaScriptConfirm env_qt571 (page example_view)
        (QUrl ''https://example.org/'') ''sure?'') = True"
proof -
  let ?p = "fst (WebEnginePage_shutdown (page example_view))"
  let ?u = "QUrl ''https://example.org/''"
  have flag: "is_shutting_down ?p"
    by (simp add: WebEnginePage_shutdown_def)
  have hist: "View_shutdown \<in> set [View_shutdown] \<or> Page_shutdown \<in> set [View_shutdown]"
    by simp
  have before: "fst (javaScriptConfirm env_qt571 (page example_view) ?u ''sure?'') = True"
    by (simp add: javaScriptConfirm_def example_view_simps) (simp add: env_qt571_def)
  from javaScript_dialogs_after_shutdown
    [where self = ?p and e = env_qt571 and url = ?u and js_msg = "''sure?''"
       and cs = "[View_shutdown]" and v = example_view] flag hist
  have "javaScriptConfirm env_qt571 ?p ?u ''sure?'' = (False, ?p, [])"
    and "javaScriptConfirm env_qt571 (page (fst (invoke_all env_qt571 example_view [View_shutdown])))
        ?u ''sure?'' = (False, page (fst (invoke_all env_qt571 example_view [View_shutdown])), [])"
    by blast+
  moreover
  from javaScript_dialogs_after_shutdown
    [where self = ?p and e = env_qt571 and url = ?u and js_msg = "''hello''"
       and cs = "[View_shutdown]" and v = example_view] flag
  have "javaScriptAlert env_qt571 ?p ?u ''hello'' = ((), ?p, [])"
    by blast
  ultimately show ?thesis
    using flag hist before by simp
qed


subsection \<open>Navigation requests\<close>

text \<open>
  Claim C4: for a navigation request of the type link-click, \<^verbatim>\<open>acceptNavigationRequest\<close>
  emits \<^verbatim>\<open>link_clicked\<close> with the URL, and it returns \<^verbatim>\<open>True\<close> exactly when the URL is
  valid and the combined target of the tab is \<^verbatim>\<open>ClickTarget.normal\<close>. So a link-click on
  an invalid URL is rejected under every target. The page is not changed.
\<close>

theorem acceptNavigationRequest_link_clicked:
  assumes "typ = NavigationTypeLinkClicked"
  shows "fst (acceptNavigationRequest e self url typ is_main_frame)
      = (isValid e url \<and> combined_target (tabdata self) = normal)
    \<and> Emit link_clicked [url] \<in> set (snd (snd (acceptNavigationRequest e self url typ is_main_frame)))
    \<and> fst (snd (acceptNavigationRequest e self url typ is_main_frame)) = self
    \<and> (\<not> isValid e url \<longrightarrow> fst (acceptNavigationRequest e self url typ is_main_frame) = False)"
  using assms by (simp add: acceptNavigationRequest_def Let_def)

text \<open>
  On the example page, whose target is \<^verbatim>\<open>normal\<close>: a click on a valid link is accepted, a
  click on an invalid one is rejected, and both emit the signal.
\<close>

theorem acceptNavigationRequest_link_clicked_witness:
  "isValid env_qt571 (QUrl ''https://example.org/a'')
   \<and> fst (acceptNavigationRequest env_qt571 (page example_view) (QUrl ''https://example.org/a'')
        NavigationTypeLinkClicked True) = True
   \<and> Emit link_clicked [QUrl ''https://example.org/a'']
        \<in> set (snd (snd (acceptNavigationRequest env_qt571 (page example_view)
             (QUrl ''https://example.org/a'') NavigationTypeLinkClicked True)))
   \<and> \<not> isValid env_qt571 (QUrl [])
   \<and> fst (acceptNavigationRequest env_qt571 (page example_view) (QUrl [])
        NavigationTypeLinkClicked True) = False
   \<and> Emit link_clicked [QUrl []]
        \<in> set (snd (snd (acceptNavigationRequest env_qt571 (page example_view)
             (QUrl []) NavigationTypeLinkClicked True)))"
proof -
  have valid: "isValid env_qt571 (QUrl ''https://example.org/a'')"
    and invalid: "\<not> isValid env_qt571 (QUrl [])"
    by (simp_all add: env_qt571_def)
  have nav: "NavigationTypeLinkClicked = NavigationTypeLinkClicked"
    by (rule refl)
  from acceptNavigationRequest_link_clicked
    [OF nav, where e = env_qt571 and self = "page example_view"
       and url = "QUrl ''https://example.org/a''" and is_main_frame = True]
    acceptNavigationRequest_link_clicked
    [OF nav, where e = env_qt571 and self = "page example_view"
       and url = "QUrl []" and is_main_frame = True]
    valid invalid
  show ?thesis
    by (simp add: example_view_simps)
qed

text \<open>
  Claim C5: for a navigation request of any type other than link-click,
  \<^verbatim>\<open>acceptNavigationRequest\<close> returns \<^verbatim>\<open>True\<close>, for every URL, every target of the tab and
  both values of the main-frame flag. It emits no signal and does not change the page.
\<close>

theorem acceptNavigationRequest_other_types:
  assumes "typ \<noteq> NavigationTypeLinkClicked"
  shows "fst (acceptNavigationRequest e self url typ is_main_frame) = True
    \<and> fst (snd (acceptNavigationRequest e self url typ is_main_frame)) = self
    \<and> (\<forall>s args. Emit s args \<notin> set (snd (snd (acceptNavigationRequest e self url typ is_main_frame))))"
  using assms by (simp add: acceptNavigationRequest_def Let_def)

text \<open>
  A navigation of type 3 (back or forward) to an invalid URL, on a page whose target is a
  new tab, is accepted.
\<close>

theorem acceptNavigationRequest_other_types_witness:
  "(3::int) \<noteq> NavigationTypeLinkClicked
   \<and> \<not> isValid env_qt571 (QUrl [])
   \<and> fst (acceptNavigationRequest env_qt571
        (WebEnginePage_init \<lparr>combined_target = tab\<rparr> (QUrl ''https://example.org/''))
        (QUrl []) 3 False) = True"
proof -
  have nav: "(3::int) \<noteq> NavigationTypeLinkClicked"
    by (simp add: NavigationTypeLinkClicked_def)
  have invalid: "\<not> isValid env_qt571 (QUrl [])"
    by (simp add: env_qt571_def)
  from acceptNavigationRequest_other_types
    [OF nav, where e = env_qt571 and url = "QUrl []" and is_main_frame = False
       and self = "WebEnginePage_init \<lparr>combined_target = tab\<rparr> (QUrl ''https://example.org/'')"]
    nav invalid
  show ?thesis by blast
qed


subsection \<open>The shutting-down flag\<close>

lemma invoke_changes_flag_only_by_shutdown:
  "c \<noteq> View_shutdown \<Longrightarrow> c \<noteq> Page_shutdown \<Longrightarrow>
   is_shutting_down (page (fst (invoke e v c))) = is_shutting_down (page v)"
  by (cases c)
     (simp_all add: certificateError_def javaScriptConfirm_def javaScriptAlert_def
        javaScriptConsoleMessage_def acceptNavigationRequest_def Let_def
        split: sum.splits CallSuper.splits option.splits)

text \<open>
  Claim C8: the flag is \<^verbatim>\<open>False\<close> on a page just constructed, alone or by its view;
  \<^verbatim>\<open>shutdown\<close>, of the page or of the view, sets it; and once it is set, it is set after
  every call of a method of the view or of the page, and so after every history of such
  calls. A call other than a shutdown leaves the flag as it found it.
\<close>

theorem shutting_down_monotonic:
  "\<not> is_shutting_down (WebEnginePage_init td u)
   \<and> \<not> is_shutting_down (page (WebEngineView_init td w u))
   \<and> is_shutting_down (fst (WebEnginePage_shutdown p))
   \<and> is_shutting_down (page (fst (WebEngineView_shutdown v)))
   \<and> (is_shutting_down (page v) \<longrightarrow> is_shutting_down (page (fst (invoke e v c))))
   \<and> (is_shutting_down (page v) \<longrightarrow> is_shutting_down (page (fst (invoke_all e v cs))))
   \<and> (c \<noteq> View_shutdown \<and> c \<noteq> Page_shutdown \<longrightarrow>
        is_shutting_down (page (fst (invoke e v c))) = is_shutting_down (page v))"
proof (intro conjI impI)
  show "\<not> is_shutting_down (WebEnginePage_init td u)"
    by (simp add: WebEnginePage_init_def)
  show "\<not> is_shutting_down (page (WebEngineView_init td w u))"
    by (simp add: WebEngineView_init_def WebEnginePage_init_def)
  show "is_shutting_down (fst (WebEnginePage_shutdown p))"
    by (simp add: WebEnginePage_shutdown_def)
  show "is_shutting_down (page (fst (WebEngineView_shutdown v)))"
    by (simp add: WebEngineView_shutdown_def WebEnginePage_shutdown_def)
next
  assume "is_shutting_down (page v)"
  then show "is_shutting_down (page (fst (invoke e v c)))"
    by (rule invoke_keeps_shutting_down)
next
  assume "is_shutting_down (page v)"
  then show "is_shutting_down (page (fst (invoke_all e v cs)))"
    by (rule invoke_all_keeps_shutting_down)
next
  assume "c \<noteq> View_shutdown \<and> c \<noteq> Page_shutdown"
  then show "is_shutting_down (page (fst (invoke e v c))) = is_shutting_down (page v)"
    by (simp add: invoke_changes_flag_only_by_shutdown)
qed

text \<open>
  The example view after its shutdown: a certificate error that replaces the page's
  content, dialogs, a console message that raises, a navigation and a window request all
  leave the flag set.
\<close>

theorem shutting_down_monotonic_witness:
  "is_shutting_down (page (fst (WebEngineView_shutdown example_view)))
   \<and> Page_javaScriptConfirm (QUrl ''https://example.org/'') ''sure?'' \<noteq> View_shutdown
   \<and> Page_javaScriptConfirm (QUrl ''https://example.org/'') ''sure?'' \<noteq> Page_shutdown
   \<and> is_shutting_down (page (fst (invoke env_qt571 (fst (WebEngineView_shutdown example_view))
        (Page_javaScriptConfirm (QUrl ''https://example.org/'') ''sure?''))))
   \<and> is_shutting_down (page (fst (invoke_all env_qt571 (fst (WebEngineView_shutdown example_view))
        [Page_certificateError \<lparr>error_url = QUrl ''http://example.org/'',
           errorDescription = ''expired'', isOverridable = False\<rparr>,
         Page_javaScriptAlert (QUrl ''https://example.org/'') ''hello'',
         Page_javaScriptConsoleMessage 7 ''message'' 12 ''a.js'',
         Page_acceptNavigationRequest (QUrl ''https://example.org/a'') NavigationTypeLinkClicked True,
         View_createWindow WebBrowserTab])))"
proof -
  let ?v = "fst (WebEngineView_shutdown example_view)"
  let ?c = "Page_javaScriptConfirm (QUrl ''https://example.org/'') ''sure?''"
  let ?cs = "[Page_certificateError \<lparr>error_url = QUrl ''http://example.org/'',
           errorDescription = ''expired'', isOverridable = False\<rparr>,
         Page_javaScriptAlert (QUrl ''https://example.org/'') ''hello'',
         Page_javaScriptConsoleMessage 7 ''message'' 12 ''a.js'',
         Page_acceptNavigationRequest (QUrl ''https://example.org/a'') NavigationTypeLinkClicked True,
         View_createWindow WebBrowserTab]"
  have flag: "is_shutting_down (page ?v)"
    by (simp add: WebEngineView_shutdown_def WebEnginePage_shutdown_def)
  have other: "?c \<noteq> View_shutdown" "?c \<noteq> Page_shutdown"
    by simp_all
  from shutting_down_monotonic [where v = ?v and e = env_qt571 and c = ?c and cs = ?cs]
    flag other
  show ?thesis by blast
qed

subsection \<open>Console messages\<close>

lemma level_to_logger_None:
  "level_to_logger level = None
     \<longleftrightarrow> level \<notin> {InfoMessageLevel, WarningMessageLevel, ErrorMessageLevel}"
  by (simp add: level_to_logger_def)

text \<open>
  Claim C10: when the setting \<^verbatim>\<open>log-javascript-console\<close> is not \<^verbatim>\<open>none\<close>,
  \<^verbatim>\<open>javaScriptConsoleMessage\<close> raises \<^verbatim>\<open>KeyError\<close> for every level that is not one of
  info, warning and error: the level is looked up in the dictionary with no check before
  and no handler around. Nothing is logged then. For the three levels themselves the
  method returns.
\<close>

theorem javaScriptConsoleMessage_unknown_level:
  assumes "config_get e ''general'' ''log-javascript-console'' \<noteq> ''none''"
  shows "(level \<notin> {InfoMessageLevel, WarningMessageLevel, ErrorMessageLevel} \<longrightarrow>
        javaScriptConsoleMessage e self level msg line source = (Inl (KeyError level), self, []))
    \<and> (level \<in> {InfoMessageLevel, WarningMessageLevel, ErrorMessageLevel} \<longrightarrow>
        fst (javaScriptConsoleMessage e self level msg line source) = Inr ())"
proof (intro conjI impI)
  assume "level \<notin> {InfoMessageLevel, WarningMessageLevel, ErrorMessageLevel}"
  then have "level_to_logger level = None"
    by (simp add: level_to_logger_None)
  with assms show "javaScriptConsoleMessage e self level msg line source
      = (Inl (KeyError level), self, [])"
    by (simp add: javaScriptConsoleMessage_def Let_def)
next
  assume "level \<in> {InfoMessageLevel, WarningMessageLevel, ErrorMessageLevel}"
  then have "level_to_logger level \<noteq> None"
    by (simp add: level_to_logger_None)
  with assms show "fst (javaScriptConsoleMessage e self level msg line source) = Inr ()"
    by (auto simp add: javaScriptConsoleMessage_def Let_def)
qed

text \<open>
  With the setting \<^verbatim>\<open>debug\<close>: a message of level 7 raises \<^verbatim>\<open>KeyError\<close>, a warning is
  logged.
\<close>

theorem javaScriptConsoleMessage_unknown_level_witness:
  "config_get env_qt571 ''general'' ''log-javascript-console'' \<noteq> ''none''
   \<and> (7::int) \<notin> {InfoMessageLevel, WarningMessageLevel, ErrorMessageLevel}
   \<and> fst (javaScriptConsoleMessage env_qt571 (page example_view) 7 ''message'' 12 ''a.js'')
       = Inl (KeyError 7)
   \<and> WarningMessageLevel \<in> {InfoMessageLevel, WarningMessageLevel, ErrorMessageLevel}
   \<and> fst (javaScriptConsoleMessage env_qt571 (page example_view) WarningMessageLevel
        ''message'' 12 ''a.js'') = Inr ()"
proof -
  have setting: "config_get env_qt571 ''general'' ''log-javascript-console'' \<noteq> ''none''"
    by (simp add: env_qt571_def)
  have unknown: "(7::int) \<notin> {InfoMessageLevel, WarningMessageLevel, ErrorMessageLevel}"
    by (simp add: MessageLevel_defs)
  have known: "WarningMessageLevel \<in> {InfoMessageLevel, WarningMessageLevel, ErrorMessageLevel}"
    by simp
  from javaScriptConsoleMessage_unknown_level
    [OF setting, where level = 7 and self = "page example_view" and msg = "''message''"
       and line = 12 and source = "''a.js''"] unknown
  have "fst (javaScriptConsoleMessage env_qt571 (page example_view) 7 ''message'' 12 ''a.js'')
      = Inl (KeyError 7)"
    by simp
  moreover
  from javaScriptConsoleMessage_unknown_level
    [OF setting, where level = WarningMessageLevel and self = "page example_view"
       and msg = "''message''" and line = 12 and source = "''a.js''"] known
  have "fst (javaScriptConsoleMessage env_qt571 (page example_view) WarningMessageLevel
      ''message'' 12 ''a.js'') = Inr ()"
    by blast
  ultimately show ?thesis
    using setting unknown known by blast
qed

end
